theory Spec2Isabelle
  imports Main
begin

section \<open>Data model\<close>

text \<open>
  The tables of the application, as the handlers of \<^verbatim>\<open>app.py\<close> read and write them.
  Rows are kept in table order. Primary keys and foreign keys are natural numbers (the
  routes take \<^verbatim>\<open>int\<close> path parameters, which match non-negative integers only);
  timestamps are integers.
\<close>

record user =
  u_id :: nat
  username :: string
  email :: string
  password :: string
  image_url :: string
  header_image_url :: string
  bio :: "string option"
  location :: "string option"

record message =
  m_id :: nat
  m_text :: string
  timestamp :: int
  m_user_id :: nat

record like =
  l_user_id :: nat
  l_message_id :: nat

record follow =
  follower_id :: nat
  followee_id :: nat

record database =
  users :: "user list"
  messages :: "message list"
  follows :: "follow list"
  likes :: "like list"

text \<open>
  What a request sees and leaves behind: the committed database, the entry
  \<^verbatim>\<open>session[CURR_USER_KEY]\<close> of the session (\<open>None\<close> when the key is absent) and the
  flashed notices (text and category), oldest first.
\<close>

record app =
  db :: database
  session :: "nat option"
  flashed :: "(string \<times> string) list"

datatype exc =
    KeyError | AttributeError | ValueError | UnmappedInstanceError
  | IntegrityError | OperationalError

datatype url =
    Root | LoginPage | SignupPage
  | UserPage nat | UserFollowing nat | UserLikes nat

record signup_form =
  f_username :: string
  f_password :: string
  f_email :: string
  f_image_url :: string

record profile_form =
  p_username :: string
  p_password :: string
  p_email :: string
  p_image_url :: string
  p_header_image_url :: string
  p_location :: string
  p_bio :: string

text \<open>The templates rendered by the modelled handlers, with the data passed to them.\<close>

datatype view =
    Home "message list" "nat list" nat
  | HomeAnon
  | UsersShow user "message list" nat
  | UsersLikes user "message list"
  | UsersSignup signup_form

text \<open>
  How a handler ends: a redirect, a rendered template, the 404 of \<^verbatim>\<open>get_or_404\<close>, or an
  exception that no handler catches (the server answers with an internal error).
\<close>

datatype response = Redirect url | Render view | Abort404 | Raised exc

text \<open>
  Modelled from the spec: \<^verbatim>\<open>models.py\<close> is not among the sources. The password hash, its
  verification and the default image locations are parameters of the model.
\<close>

record env =
  hash_pw :: "string \<Rightarrow> string"
  check_pw :: "string \<Rightarrow> string \<Rightarrow> bool"
  default_image_url :: string
  default_header_image_url :: string

section \<open>Queries\<close>

definition User_query_get :: "database \<Rightarrow> nat \<Rightarrow> user option" where
  "User_query_get d i = find (\<lambda>u. u_id u = i) (users d)"

definition Message_query_get :: "database \<Rightarrow> nat \<Rightarrow> message option" where
  "Message_query_get d i = find (\<lambda>m. m_id m = i) (messages d)"

text \<open>
  \<^verbatim>\<open>order_by(Message.timestamp.desc())\<close>: the rows by decreasing timestamp. The order
  of rows with equal timestamps is the store's choice; the model keeps them in table
  order.
\<close>

definition order_by_timestamp_desc :: "message list \<Rightarrow> message list" where
  "order_by_timestamp_desc ms = sort_key (\<lambda>m. - timestamp m) ms"

text \<open>\<^verbatim>\<open>Likes.query.filter(Likes.user_id == uid).all()\<close>\<close>

definition likes_of_user :: "database \<Rightarrow> nat \<Rightarrow> like list" where
  "likes_of_user d uid = filter (\<lambda>l. l_user_id l = uid) (likes d)"

text \<open>
  \<^verbatim>\<open>user.following\<close>: the users that the follow rows of \<open>u\<close> lead to (a join of the
  follow table with the user table).
\<close>

definition following :: "database \<Rightarrow> user \<Rightarrow> user list" where
  "following d u =
     List.map_filter (\<lambda>f. if follower_id f = u_id u then User_query_get d (followee_id f) else None)
       (follows d)"

text \<open>
  \<^verbatim>\<open>db.session.commit()\<close>. Whether the store accepts a commit is not decided by the
  handler: \<open>fault\<close> is the exception that the store raises at this commit, if any. A
  commit that raises persists nothing of the pending changes.
\<close>

definition commit :: "exc option \<Rightarrow> database \<Rightarrow> exc + database" where
  "commit fault pending = (case fault of Some e \<Rightarrow> Inl e | None \<Rightarrow> Inr pending)"

definition fresh_id :: "nat list \<Rightarrow> nat" where
  "fresh_id ids = Suc (fold max ids 0)"

section \<open>Session and identity\<close>

definition add_user_to_g :: "app \<Rightarrow> user option" where
  "add_user_to_g st =
     (case session st of Some i \<Rightarrow> User_query_get (db st) i | None \<Rightarrow> None)"

definition do_login :: "user \<Rightarrow> app \<Rightarrow> app" where
  "do_login u st = st\<lparr>session := Some (u_id u)\<rparr>"

definition do_logout :: "app \<Rightarrow> app" where
  "do_logout st = (if session st \<noteq> None then st\<lparr>session := None\<rparr> else st)"

definition flash :: "string \<Rightarrow> string \<Rightarrow> app \<Rightarrow> app" where
  "flash msg category st = st\<lparr>flashed := flashed st @ [(msg, category)]\<rparr>"

text \<open>The gate of the guarded handlers: \<^verbatim>\<open>flash("Access unauthorized.", "danger")\<close> and a redirect to \<^verbatim>\<open>/\<close>.\<close>

definition unauthorized :: "app \<Rightarrow> response \<times> app" where
  "unauthorized st = (Redirect Root, flash ''Access unauthorized.'' ''danger'' st)"

section \<open>Handlers\<close>

text \<open>\<^verbatim>\<open>GET /logout\<close>\<close>

definition logout :: "app \<Rightarrow> response \<times> app" where
  "logout st =
     (case session st of
        None \<Rightarrow> (Raised KeyError, st)
      | Some i \<Rightarrow>
          (case User_query_get (db st) i of
             None \<Rightarrow> (Abort404, st)
           | Some u \<Rightarrow>
               (Redirect LoginPage,
                flash (''Goodbye, '' @ username u @ ''!'') ''info'' (do_logout st))))"

text \<open>\<^verbatim>\<open>GET /users/<user_id>\<close>\<close>

definition users_show :: "nat \<Rightarrow> app \<Rightarrow> response \<times> app" where
  "users_show user_id st =
     (case User_query_get (db st) user_id of
        None \<Rightarrow> (Abort404, st)
      | Some u \<Rightarrow>
          (let msgs = take 100 (order_by_timestamp_desc
                        (filter (\<lambda>m. m_user_id m = user_id) (messages (db st))))
           in case add_user_to_g st of
                None \<Rightarrow> (Raised AttributeError, st)
              | Some g_user \<Rightarrow>
                  (let list_of_liked_message_ids =
                         map l_message_id (likes_of_user (db st) (u_id g_user));
                       num_likes = length list_of_liked_message_ids
                   in (Render (UsersShow u msgs num_likes), st))))"

text \<open>\<^verbatim>\<open>GET /users/<user_id>/likes\<close>\<close>

definition user_likes :: "nat \<Rightarrow> app \<Rightarrow> response \<times> app" where
  "user_likes user_id st =
     (case add_user_to_g st of
        None \<Rightarrow> unauthorized st
      | Some g_user \<Rightarrow>
          (case User_query_get (db st) user_id of
             None \<Rightarrow> (Abort404, st)
           | Some u \<Rightarrow>
               (let list_of_liked_message_ids =
                      map l_message_id (likes_of_user (db st) (u_id g_user));
                    liked_messages = order_by_timestamp_desc
                      (filter (\<lambda>m. m_id m \<in> set list_of_liked_message_ids) (messages (db st)))
                in (Render (UsersLikes u liked_messages), st))))"

text \<open>\<^verbatim>\<open>POST /users/follow/<follow_id>\<close>\<close>

definition add_follow :: "nat \<Rightarrow> exc option \<Rightarrow> app \<Rightarrow> response \<times> app" where
  "add_follow follow_id fault st =
     (case add_user_to_g st of
        None \<Rightarrow> unauthorized st
      | Some g_user \<Rightarrow>
          (case User_query_get (db st) follow_id of
             None \<Rightarrow> (Abort404, st)
           | Some followed_user \<Rightarrow>
               (case commit fault ((db st)\<lparr>follows := follows (db st) @
                       [\<lparr>follower_id = u_id g_user, followee_id = u_id followed_user\<rparr>]\<rparr>) of
                  Inl e \<Rightarrow> (Raised e, st)
                | Inr d \<Rightarrow> (Redirect (UserFollowing (u_id g_user)), st\<lparr>db := d\<rparr>))))"

text \<open>
  \<^verbatim>\<open>POST /users/stop-following/<follow_id>\<close>. \<^verbatim>\<open>list.remove\<close> raises ValueError when
  the user looked up (possibly \<^verbatim>\<open>None\<close>) is not in \<^verbatim>\<open>g.user.following\<close>.
\<close>

definition stop_following :: "nat \<Rightarrow> exc option \<Rightarrow> app \<Rightarrow> response \<times> app" where
  "stop_following follow_id fault st =
     (case add_user_to_g st of
        None \<Rightarrow> unauthorized st
      | Some g_user \<Rightarrow>
          (case User_query_get (db st) follow_id of
             None \<Rightarrow> (Raised ValueError, st)
           | Some followed_user \<Rightarrow>
               (if followed_user \<in> set (following (db st) g_user) then
                  (case commit fault ((db st)\<lparr>follows := remove1
                          \<lparr>follower_id = u_id g_user, followee_id = u_id followed_user\<rparr>
                          (follows (db st))\<rparr>) of
                     Inl e \<Rightarrow> (Raised e, st)
                   | Inr d \<Rightarrow> (Redirect (UserFollowing (u_id g_user)), st\<lparr>db := d\<rparr>))
                else (Raised ValueError, st))))"

text \<open>\<^verbatim>\<open>db.session.delete(message)\<close>: the row with the primary key of \<open>m\<close> goes.\<close>

definition delete_message :: "message \<Rightarrow> database \<Rightarrow> database" where
  "delete_message m d = d\<lparr>messages := filter (\<lambda>x. m_id x \<noteq> m_id m) (messages d)\<rparr>"

definition delete_user_row :: "user \<Rightarrow> database \<Rightarrow> database" where
  "delete_user_row u d = d\<lparr>users := filter (\<lambda>x. u_id x \<noteq> u_id u) (users d)\<rparr>"

text \<open>
  \<^verbatim>\<open>POST /users/delete\<close>. The handler commits twice: once after deleting the messages
  (\<open>fault1\<close>), once after deleting the user (\<open>fault2\<close>). What the store does to follow
  and like rows that refer to a deleted row is declared in \<^verbatim>\<open>models.py\<close>; the model
  leaves those rows in place.
\<close>

definition delete_user :: "exc option \<Rightarrow> exc option \<Rightarrow> app \<Rightarrow> response \<times> app" where
  "delete_user fault1 fault2 st =
     (case add_user_to_g st of
        None \<Rightarrow> unauthorized st
      | Some curr_user \<Rightarrow>
          (let messages_to_delete =
                 filter (\<lambda>m. m_user_id m = u_id curr_user) (messages (db st))
           in case commit fault1 (fold delete_message messages_to_delete (db st)) of
                Inl e \<Rightarrow> (Raised e, st)
              | Inr d1 \<Rightarrow>
                  (case commit fault2 (delete_user_row curr_user d1) of
                     Inl e \<Rightarrow> (Raised e, st\<lparr>db := d1\<rparr>)
                   | Inr d2 \<Rightarrow> (Redirect SignupPage, do_logout (st\<lparr>db := d2\<rparr>)))))"

text \<open>
  \<^verbatim>\<open>POST /messages/new\<close>. The store assigns the new row's key and, by the column
  default, the time \<open>now\<close> of the request.
\<close>

definition messages_add :: "string \<Rightarrow> int \<Rightarrow> exc option \<Rightarrow> app \<Rightarrow> response \<times> app" where
  "messages_add form_text now fault st =
     (case add_user_to_g st of
        None \<Rightarrow> unauthorized st
      | Some g_user \<Rightarrow>
          (let msg = \<lparr>m_id = fresh_id (map m_id (messages (db st))), m_text = form_text,
                      timestamp = now, m_user_id = u_id g_user\<rparr>
           in case commit fault ((db st)\<lparr>messages := messages (db st) @ [msg]\<rparr>) of
                Inl e \<Rightarrow> (Raised e, st)
              | Inr d \<Rightarrow> (Redirect (UserPage (u_id g_user)), st\<lparr>db := d\<rparr>)))"

text \<open>
  \<^verbatim>\<open>POST /messages/<message_id>/delete\<close>. \<^verbatim>\<open>db.session.delete(None)\<close> raises
  UnmappedInstanceError.
\<close>

definition messages_destroy :: "nat \<Rightarrow> exc option \<Rightarrow> app \<Rightarrow> response \<times> app" where
  "messages_destroy message_id fault st =
     (case add_user_to_g st of
        None \<Rightarrow> unauthorized st
      | Some g_user \<Rightarrow>
          (case Message_query_get (db st) message_id of
             None \<Rightarrow> (Raised UnmappedInstanceError, st)
           | Some msg \<Rightarrow>
               (case commit fault (delete_message msg (db st)) of
                  Inl e \<Rightarrow> (Raised e, st)
                | Inr d \<Rightarrow> (Redirect (UserPage (u_id g_user)), st\<lparr>db := d\<rparr>))))"

text \<open>\<^verbatim>\<open>GET /\<close>\<close>

definition homepage :: "app \<Rightarrow> response \<times> app" where
  "homepage st =
     (case add_user_to_g st of
        Some g_user \<Rightarrow>
          (let list_of_following_ids = map u_id (following (db st) g_user);
               msgs = take 100 (order_by_timestamp_desc
                        (filter (\<lambda>m. m_user_id m \<in> set list_of_following_ids)
                           (messages (db st))));
               list_of_liked_message_ids =
                 map l_message_id (likes_of_user (db st) (u_id g_user));
               num_likes = length list_of_liked_message_ids
           in (Render (Home msgs list_of_liked_message_ids num_likes), st))
      | None \<Rightarrow> (Render HomeAnon, st))"

text \<open>
  Modelled from the spec: \<^verbatim>\<open>User.signup\<close> and the unique constraints are declared in
  \<^verbatim>\<open>models.py\<close>, which is not among the sources. The new row gets a fresh key and
  the hashed password; the store refuses it with IntegrityError when its username or
  its email is already in the table.
\<close>

definition User_signup :: "env \<Rightarrow> string \<Rightarrow> string \<Rightarrow> string \<Rightarrow> string \<Rightarrow> database \<Rightarrow> user" where
  "User_signup e uname pw mail img d =
     \<lparr>u_id = fresh_id (map u_id (users d)), username = uname, email = mail,
      password = hash_pw e pw, image_url = img,
      header_image_url = default_header_image_url e, bio = None, location = None\<rparr>"

definition identity_taken :: "user \<Rightarrow> user list \<Rightarrow> bool" where
  "identity_taken u us =
     (list_ex (\<lambda>x. u_id x \<noteq> u_id u \<and> (username x = username u \<or> email x = email u)) us)"

definition commit_users :: "exc option \<Rightarrow> user \<Rightarrow> database \<Rightarrow> exc + database" where
  "commit_users fault u pending =
     (case fault of
        Some e \<Rightarrow> Inl e
      | None \<Rightarrow> if identity_taken u (users pending) then Inl IntegrityError else Inr pending)"

text \<open>
  Modelled from the spec: \<^verbatim>\<open>User.authenticate\<close> (in \<^verbatim>\<open>models.py\<close>) returns the user of
  that name when the password verifies against the stored hash, and no user otherwise.
\<close>

definition User_authenticate :: "env \<Rightarrow> database \<Rightarrow> string \<Rightarrow> string \<Rightarrow> user option" where
  "User_authenticate e d uname pw =
     (case find (\<lambda>u. username u = uname) (users d) of
        None \<Rightarrow> None
      | Some u \<Rightarrow> if check_pw e (password u) pw then Some u else None)"

text \<open>\<^verbatim>\<open>POST /signup\<close>. Only IntegrityError is caught.\<close>

definition signup :: "env \<Rightarrow> signup_form \<Rightarrow> exc option \<Rightarrow> app \<Rightarrow> response \<times> app" where
  "signup e form fault st =
     (let u = User_signup e (f_username form) (f_password form) (f_email form)
                (if f_image_url form = [] then default_image_url e else f_image_url form)
                (db st)
      in case commit_users fault u ((db st)\<lparr>users := users (db st) @ [u]\<rparr>) of
           Inl ex \<Rightarrow>
             (if ex = IntegrityError
              then (Render (UsersSignup form), flash ''Username already taken'' ''danger'' st)
              else (Raised ex, st))
         | Inr d \<Rightarrow> (Redirect Root, do_login u (st\<lparr>db := d\<rparr>)))"

text \<open>\<^verbatim>\<open>POST /users/profile\<close>\<close>

definition update_row :: "user \<Rightarrow> user list \<Rightarrow> user list" where
  "update_row u us = map (\<lambda>x. if u_id x = u_id u then u else x) us"

definition update_profile :: "env \<Rightarrow> profile_form \<Rightarrow> exc option \<Rightarrow> app \<Rightarrow> response \<times> app" where
  "update_profile e form fault st =
     (case session st of
        None \<Rightarrow> (Raised KeyError, st)
      | Some i \<Rightarrow>
          (case User_query_get (db st) i of
             None \<Rightarrow> (Abort404, st)
           | Some u \<Rightarrow>
               (case User_authenticate e (db st) (username u) (p_password form) of
                  Some confirmed_user \<Rightarrow>
                    (let c = confirmed_user\<lparr>username := p_username form, email := p_email form,
                               image_url := p_image_url form,
                               header_image_url := p_header_image_url form,
                               location := Some (p_location form), bio := Some (p_bio form)\<rparr>
                     in case commit_users fault c
                               ((db st)\<lparr>users := update_row c (users (db st))\<rparr>) of
                          Inl ex \<Rightarrow> (Raised ex, st)
                        | Inr d \<Rightarrow> (Redirect (UserPage (u_id confirmed_user)), st\<lparr>db := d\<rparr>))
                | None \<Rightarrow> (Redirect Root, flash ''Wrong password !!'' ''danger'' st))))"

text \<open>
  \<^verbatim>\<open>POST /users/add_like/<message_id>\<close>. The handler has no gate. It looks for the
  message id among all like rows; \<^verbatim>\<open>.first()\<close> is the first such row in table order,
  and that row is deleted. The redirect after the commit reads \<^verbatim>\<open>g.user.id\<close>.
\<close>

definition delete_like :: "like \<Rightarrow> database \<Rightarrow> database" where
  "delete_like l d = d\<lparr>likes := remove1 l (likes d)\<rparr>"

definition add_like :: "nat \<Rightarrow> exc option \<Rightarrow> app \<Rightarrow> response \<times> app" where
  "add_like message_id fault st =
     (let list_of_liked_message_ids = map l_message_id (likes (db st))
      in if message_id \<in> set list_of_liked_message_ids then
           (case find (\<lambda>l. l_message_id l = message_id) (likes (db st)) of
              None \<Rightarrow> (Raised UnmappedInstanceError, st)
            | Some unlike \<Rightarrow>
                (case commit fault (delete_like unlike (db st)) of
                   Inl e \<Rightarrow> (Raised e, st)
                 | Inr d \<Rightarrow>
                     (case add_user_to_g st of
                        None \<Rightarrow> (Raised AttributeError, st\<lparr>db := d\<rparr>)
                      | Some g_user \<Rightarrow> (Redirect (UserLikes (u_id g_user)), st\<lparr>db := d\<rparr>))))
         else
           (case session st of
              None \<Rightarrow> (Raised KeyError, st)
            | Some i \<Rightarrow>
                (case User_query_get (db st) i of
                   None \<Rightarrow> (Abort404, st)
                 | Some u \<Rightarrow>
                     (let new_like = \<lparr>l_user_id = u_id u, l_message_id = message_id\<rparr>
                      in case commit fault ((db st)\<lparr>likes := likes (db st) @ [new_like]\<rparr>) of
                           Inl e \<Rightarrow> (Raised e, st)
                         | Inr d \<Rightarrow> (Redirect Root, st\<lparr>db := d\<rparr>)))))"

section \<open>What a rendered view shows\<close>

definition rendered_num_likes :: "response \<Rightarrow> nat option" where
  "rendered_num_likes r = (case r of Render (UsersShow u ms n) \<Rightarrow> Some n | _ \<Rightarrow> None)"

definition rendered_liked_messages :: "response \<Rightarrow> message list option" where
  "rendered_liked_messages r = (case r of Render (UsersLikes u ms) \<Rightarrow> Some ms | _ \<Rightarrow> None)"

section \<open>Example data\<close>

text \<open>
  Three users; alice follows bob and carol, and alice likes the messages 5 and 7.
  Bob likes nothing. \<open>ex_app s\<close> is a request on that database with session entry \<open>s\<close>.
\<close>

definition mk_user :: "nat \<Rightarrow> string \<Rightarrow> user" where
  "mk_user i n =
     \<lparr>u_id = i, username = n, email = n @ ''@example.com'', password = ''hash:'' @ n,
      image_url = ''/static/images/default-pic.png'',
      header_image_url = ''/static/images/warbler-hero.jpg'', bio = None, location = None\<rparr>"

definition mk_message :: "nat \<Rightarrow> string \<Rightarrow> int \<Rightarrow> nat \<Rightarrow> message" where
  "mk_message i t ts owner = \<lparr>m_id = i, m_text = t, timestamp = ts, m_user_id = owner\<rparr>"

definition mk_like :: "nat \<Rightarrow> nat \<Rightarrow> like" where
  "mk_like u m = \<lparr>l_user_id = u, l_message_id = m\<rparr>"

definition ex_db :: database where
  "ex_db =
     \<lparr>users = [mk_user 1 ''alice'', mk_user 2 ''bob'', mk_user 3 ''carol''],
      messages = [mk_message 5 ''hello world'' 10 1, mk_message 6 ''second'' 20 2,
                  mk_message 7 ''third'' 30 3],
      follows = [\<lparr>follower_id = 1, followee_id = 2\<rparr>, \<lparr>follower_id = 1, followee_id = 3\<rparr>],
      likes = [mk_like 1 5, mk_like 1 7]\<rparr>"

definition ex_app :: "nat option \<Rightarrow> app" where
  "ex_app s = \<lparr>db = ex_db, session = s, flashed = []\<rparr>"

definition ex_env :: env where
  "ex_env =
     \<lparr>hash_pw = (\<lambda>p. ''hash:'' @ p), check_pw = (\<lambda>h p. h = ''hash:'' @ p),
      default_image_url = ''/static/images/default-pic.png'',
      default_header_image_url = ''/static/images/warbler-hero.jpg''\<rparr>"

definition ex_signup_form :: signup_form where
  "ex_signup_form =
     \<lparr>f_username = ''alice'', f_password = ''secret'', f_email = ''other@example.com'',
      f_image_url = []\<rparr>"

text \<open>
  The same database with the messages of bob and carol posted at the same time 20.
  Alice is logged in.
\<close>

definition ex_tie_db :: database where
  "ex_tie_db =
     ex_db\<lparr>messages := [mk_message 5 ''hello world'' 10 1, mk_message 6 ''second'' 20 2,
                          mk_message 7 ''third'' 20 3]\<rparr>"

definition ex_tie_app :: app where
  "ex_tie_app = \<lparr>db = ex_tie_db, session = Some 1, flashed = []\<rparr>"

lemmas ex_defs =
  ex_db_def ex_app_def ex_env_def ex_signup_form_def mk_user_def mk_message_def mk_like_def

lemmas query_defs =
  User_query_get_def Message_query_get_def add_user_to_g_def likes_of_user_def following_def
  order_by_timestamp_desc_def commit_def

section \<open>The home timeline\<close>

lemma order_by_timestamp_desc_set: "set (order_by_timestamp_desc ms) = set ms"
  by (simp add: order_by_timestamp_desc_def)

lemma order_by_timestamp_desc_sorted:
  "sorted_wrt (\<lambda>a b. timestamp b \<le> timestamp a) (order_by_timestamp_desc ms)"
proof -
  have "sorted (map (\<lambda>m. - timestamp m) (order_by_timestamp_desc ms))"
    by (simp add: order_by_timestamp_desc_def)
  then show ?thesis by (simp add: sorted_wrt_map)
qed

lemma sorted_distinct_strict:
  "sorted_wrt (\<lambda>a b. timestamp b \<le> timestamp a) ms \<Longrightarrow> distinct (map timestamp ms)
   \<Longrightarrow> sorted_wrt (\<lambda>a b. timestamp b < timestamp a) ms"
proof (induction ms)
  case Nil
  then show ?case by simp
next
  case (Cons a ms)
  have "timestamp y < timestamp a" if "y \<in> set ms" for y
  proof -
    from Cons.prems that have "timestamp y \<le> timestamp a" "timestamp a \<noteq> timestamp y"
      by auto
    then show ?thesis by simp
  qed
  with Cons show ?case by simp
qed

lemma order_by_timestamp_desc_distinct:
  assumes "distinct (map timestamp ms)"
  shows "distinct (map timestamp (take n (order_by_timestamp_desc ms)))"
proof -
  from assms have d: "distinct ms" and i: "inj_on timestamp (set ms)"
    by (simp_all add: distinct_map)
  have "distinct (order_by_timestamp_desc ms)"
    using d by (simp add: order_by_timestamp_desc_def)
  then have d': "distinct (take n (order_by_timestamp_desc ms))" by simp
  have "set (take n (order_by_timestamp_desc ms)) \<subseteq> set ms"
    using set_take_subset[of n "order_by_timestamp_desc ms"]
    by (simp add: order_by_timestamp_desc_set)
  with i have "inj_on timestamp (set (take n (order_by_timestamp_desc ms)))"
    by (rule inj_on_subset)
  with d' show ?thesis by (simp add: distinct_map)
qed

text \<open>
  Claim C4, with the order that the query gives. For a logged-in user \<open>v\<close> whose
  followed users are exactly \<open>A\<close> and \<open>B\<close>, \<^verbatim>\<open>GET /\<close> renders the home view,
  changes nothing, and the messages it shows are rows of the message table owned by
  \<open>A\<close> or by \<open>B\<close> (the viewer's own messages are there only when the viewer is one of
  the two), at most 100 of them, by decreasing timestamp: a later row is never newer
  than an earlier one. The order is strict when no two messages of \<open>A\<close> and \<open>B\<close> in
  the table carry the same timestamp.
\<close>

theorem homepage_timeline:
  assumes g: "add_user_to_g st = Some v"
    and f: "set (map u_id (following (db st) v)) = {A, B}"
  shows "\<exists>ms ids n. homepage st = (Render (Home ms ids n), st)
           \<and> (\<forall>m \<in> set ms. m \<in> set (messages (db st)) \<and> (m_user_id m = A \<or> m_user_id m = B))
           \<and> sorted_wrt (\<lambda>a b. timestamp b \<le> timestamp a) ms
           \<and> (distinct (map timestamp
                  (filter (\<lambda>m. m_user_id m = A \<or> m_user_id m = B) (messages (db st))))
                \<longrightarrow> sorted_wrt (\<lambda>a b. timestamp b < timestamp a) ms)
           \<and> length ms \<le> 100"
proof -
  let ?own = "filter (\<lambda>m. m_user_id m \<in> set (map u_id (following (db st) v))) (messages (db st))"
  let ?ms = "take 100 (order_by_timestamp_desc ?own)"
  have eq: "homepage st = (Render (Home ?ms (map l_message_id (likes_of_user (db st) (u_id v)))
              (length (map l_message_id (likes_of_user (db st) (u_id v))))), st)"
    using g by (simp add: homepage_def Let_def)
  have own: "?own = filter (\<lambda>m. m_user_id m = A \<or> m_user_id m = B) (messages (db st))"
    using f by simp
  have mem: "\<forall>m \<in> set ?ms. m \<in> set (messages (db st)) \<and> (m_user_id m = A \<or> m_user_id m = B)"
  proof
    fix m assume "m \<in> set ?ms"
    then have "m \<in> set (order_by_timestamp_desc ?own)"
      by (rule in_set_takeD)
    then have "m \<in> set (messages (db st)) \<and> m_user_id m \<in> {A, B}"
      using f by (simp add: order_by_timestamp_desc_set)
    then show "m \<in> set (messages (db st)) \<and> (m_user_id m = A \<or> m_user_id m = B)" by simp
  qed
  have srt: "sorted_wrt (\<lambda>a b. timestamp b \<le> timestamp a) ?ms"
    by (rule sorted_wrt_take) (rule order_by_timestamp_desc_sorted)
  have strict: "distinct (map timestamp
                  (filter (\<lambda>m. m_user_id m = A \<or> m_user_id m = B) (messages (db st))))
                \<longrightarrow> sorted_wrt (\<lambda>a b. timestamp b < timestamp a) ?ms"
  proof
    assume "distinct (map timestamp
              (filter (\<lambda>m. m_user_id m = A \<or> m_user_id m = B) (messages (db st))))"
    then have "distinct (map timestamp ?own)" by (simp only: own)
    then have "distinct (map timestamp ?ms)" by (rule order_by_timestamp_desc_distinct)
    with srt show "sorted_wrt (\<lambda>a b. timestamp b < timestamp a) ?ms"
      by (rule sorted_distinct_strict)
  qed
  have len: "length ?ms \<le> 100" by simp
  from eq mem srt strict len show ?thesis by blast
qed

text \<open>
  Alice follows bob (2) and carol (3), whose messages have the timestamps 20 and 30: her
  timeline is carol's message, then bob's, and not her own message 5.
\<close>

theorem homepage_timeline_witness:
  "add_user_to_g (ex_app (Some 1)) = Some (mk_user 1 ''alice'')
   \<and> set (map u_id (following (db (ex_app (Some 1))) (mk_user 1 ''alice''))) = {2, 3}
   \<and> distinct (map timestamp
        (filter (\<lambda>m. m_user_id m = 2 \<or> m_user_id m = 3) (messages (db (ex_app (Some 1))))))
   \<and> (\<exists>ms ids n. homepage (ex_app (Some 1)) = (Render (Home ms ids n), ex_app (Some 1))
         \<and> map m_id ms = [7, 6]
         \<and> list_all (\<lambda>m. m_user_id m = 2 \<or> m_user_id m = 3) ms
         \<and> sorted_wrt (\<lambda>a b. timestamp b \<le> timestamp a) ms
         \<and> sorted_wrt (\<lambda>a b. timestamp b < timestamp a) ms
         \<and> length ms \<le> 100)"
proof -
  have h1: "add_user_to_g (ex_app (Some 1)) = Some (mk_user 1 ''alice'')"
    by (simp add: ex_defs query_defs)
  have h2: "set (map u_id (following (db (ex_app (Some 1))) (mk_user 1 ''alice''))) = {2, 3}"
    by (simp add: ex_defs query_defs List.map_filter_def)
  have h3: "distinct (map timestamp
        (filter (\<lambda>m. m_user_id m = 2 \<or> m_user_id m = 3) (messages (db (ex_app (Some 1))))))"
    by (simp add: ex_defs)
  have ev: "homepage (ex_app (Some 1))
            = (Render (Home [mk_message 7 ''third'' 30 3, mk_message 6 ''second'' 20 2] [5, 7] 2),
               ex_app (Some 1))"
    by (simp add: homepage_def ex_defs query_defs List.map_filter_def)
  from homepage_timeline [OF h1 h2] obtain ms ids n where
    a: "homepage (ex_app (Some 1)) = (Render (Home ms ids n), ex_app (Some 1))"
    and b: "\<forall>m \<in> set ms. m \<in> set (messages (db (ex_app (Some 1))))
              \<and> (m_user_id m = 2 \<or> m_user_id m = 3)"
    and s: "sorted_wrt (\<lambda>a b. timestamp b \<le> timestamp a) ms"
    and c: "distinct (map timestamp
              (filter (\<lambda>m. m_user_id m = 2 \<or> m_user_id m = 3) (messages (db (ex_app (Some 1))))))
            \<longrightarrow> sorted_wrt (\<lambda>a b. timestamp b < timestamp a) ms"
    and d: "length ms \<le> 100"
    by blast
  from a ev have ms: "ms = [mk_message 7 ''third'' 30 3, mk_message 6 ''second'' 20 2]"
    by simp
  from c h3 have e: "sorted_wrt (\<lambda>a b. timestamp b < timestamp a) ms" by simp
  have i: "map m_id ms = [7, 6]" by (simp add: ms mk_message_def)
  from b have l: "list_all (\<lambda>m. m_user_id m = 2 \<or> m_user_id m = 3) ms"
    by (simp add: list_all_iff)
  show ?thesis
    using h1 h2 h3 a i l s e d by (intro conjI exI) assumption+
qed

text \<open>
  Claim C4 as it is worded asks for a strictly descending order. Messages with the same
  timestamp cannot be shown so: bob's and carol's messages both carry timestamp 20,
  alice's timeline shows the two, and neither order of them is strictly descending.
\<close>

theorem homepage_timeline_tie_counterexample:
  "add_user_to_g ex_tie_app = Some (mk_user 1 ''alice'')
   \<and> set (map u_id (following (db ex_tie_app) (mk_user 1 ''alice''))) = {2, 3}
   \<and> homepage ex_tie_app
       = (Render (Home [mk_message 6 ''second'' 20 2, mk_message 7 ''third'' 20 3] [5, 7] 2),
          ex_tie_app)
   \<and> map timestamp [mk_message 6 ''second'' 20 2, mk_message 7 ''third'' 20 3] = [20, 20]
   \<and> \<not> sorted_wrt (\<lambda>a b. timestamp b < timestamp a)
         [mk_message 6 ''second'' 20 2, mk_message 7 ''third'' 20 3]
   \<and> \<not> sorted_wrt (\<lambda>a b. timestamp b < timestamp a)
         [mk_message 7 ''third'' 20 3, mk_message 6 ''second'' 20 2]"
  by (simp add: homepage_def ex_tie_app_def ex_tie_db_def ex_defs query_defs List.map_filter_def)

section \<open>Deleting an account\<close>

lemma fold_delete_message_messages:
  "messages (fold delete_message ms d) = filter (\<lambda>x. m_id x \<notin> m_id ` set ms) (messages d)"
  by (induction ms arbitrary: d) (auto simp: delete_message_def intro: filter_cong)

lemma fold_delete_message_users: "users (fold delete_message ms d) = users d"
  by (induction ms arbitrary: d) (auto simp: delete_message_def)

lemma delete_own_messages:
  assumes "distinct (map m_id ms)"
  shows "filter (\<lambda>x. m_id x \<notin> m_id ` set (filter (\<lambda>m. m_user_id m = i) ms)) ms
         = filter (\<lambda>m. m_user_id m \<noteq> i) ms"
proof (rule filter_cong[OF refl])
  fix x assume x: "x \<in> set ms"
  have inj: "inj_on m_id (set ms)" using assms by (simp add: distinct_map)
  show "(m_id x \<notin> m_id ` set (filter (\<lambda>m. m_user_id m = i) ms)) = (m_user_id x \<noteq> i)"
  proof
    assume "m_id x \<notin> m_id ` set (filter (\<lambda>m. m_user_id m = i) ms)"
    then show "m_user_id x \<noteq> i" using x by auto
  next
    assume n: "m_user_id x \<noteq> i"
    show "m_id x \<notin> m_id ` set (filter (\<lambda>m. m_user_id m = i) ms)"
    proof
      assume "m_id x \<in> m_id ` set (filter (\<lambda>m. m_user_id m = i) ms)"
      then obtain y where y: "y \<in> set ms" "m_user_id y = i" "m_id x = m_id y" by auto
      with inj x have "x = y" by (auto dest: inj_onD)
      with y n show False by simp
    qed
  qed
qed

lemma find_filter_none: "find (\<lambda>u. u_id u = i) (filter (\<lambda>x. u_id x \<noteq> i) us) = None"
  by (simp add: find_None_iff)

text \<open>
  Claim C5. When a logged-in user \<open>v\<close> posts to \<^verbatim>\<open>/users/delete\<close> and both commits go
  through, the handler redirects to the signup page, and afterwards the message table
  holds exactly the rows it held before that are owned by somebody else, in the same
  order: all of \<open>v\<close>'s messages are gone and no other user's message is. Looking the
  deleted id up finds no user, so the profile route answers 404, and the session is
  cleared. Message ids are the table's primary key, hence pairwise different.
\<close>

theorem delete_user_cascade:
  assumes g: "add_user_to_g st = Some v"
    and pk: "distinct (map m_id (messages (db st)))"
  shows "fst (delete_user None None st) = Redirect SignupPage
         \<and> messages (db (snd (delete_user None None st)))
             = filter (\<lambda>m. m_user_id m \<noteq> u_id v) (messages (db st))
         \<and> User_query_get (db (snd (delete_user None None st))) (u_id v) = None
         \<and> fst (users_show (u_id v) (snd (delete_user None None st))) = Abort404
         \<and> session (snd (delete_user None None st)) = None"
proof -
  let ?d1 = "fold delete_message (filter (\<lambda>m. m_user_id m = u_id v) (messages (db st))) (db st)"
  let ?d2 = "delete_user_row v ?d1"
  have eq: "delete_user None None st = (Redirect SignupPage, do_logout (st\<lparr>db := ?d2\<rparr>))"
    using g by (simp add: delete_user_def commit_def Let_def)
  have dbeq: "db (do_logout (st\<lparr>db := ?d2\<rparr>)) = ?d2" by (simp add: do_logout_def)
  have m: "messages ?d2 = filter (\<lambda>m. m_user_id m \<noteq> u_id v) (messages (db st))"
    using delete_own_messages[OF pk]
    by (simp add: delete_user_row_def fold_delete_message_messages)
  have u: "User_query_get ?d2 (u_id v) = None"
    by (simp add: User_query_get_def delete_user_row_def find_filter_none)
  have s: "session (do_logout (st\<lparr>db := ?d2\<rparr>)) = None" by (simp add: do_logout_def)
  have sh: "fst (users_show (u_id v) (do_logout (st\<lparr>db := ?d2\<rparr>))) = Abort404"
    using u dbeq by (simp add: users_show_def)
  show ?thesis using eq dbeq m u s sh by simp
qed

text \<open>Alice deletes her account: her message 5 goes, the messages 6 and 7 stay.\<close>

theorem delete_user_cascade_witness:
  "add_user_to_g (ex_app (Some 1)) = Some (mk_user 1 ''alice'')
   \<and> distinct (map m_id (messages (db (ex_app (Some 1)))))
   \<and> fst (delete_user None None (ex_app (Some 1))) = Redirect SignupPage
   \<and> map m_id (messages (db (snd (delete_user None None (ex_app (Some 1)))))) = [6, 7]
   \<and> User_query_get (db (snd (delete_user None None (ex_app (Some 1))))) 1 = None
   \<and> fst (users_show 1 (snd (delete_user None None (ex_app (Some 1))))) = Abort404
   \<and> session (snd (delete_user None None (ex_app (Some 1)))) = None"
proof -
  have h1: "add_user_to_g (ex_app (Some 1)) = Some (mk_user 1 ''alice'')"
    by (simp add: ex_defs query_defs)
  have h2: "distinct (map m_id (messages (db (ex_app (Some 1)))))"
    by (simp add: ex_defs)
  have i: "u_id (mk_user 1 ''alice'') = 1" by (simp add: mk_user_def)
  have f: "map m_id (filter (\<lambda>m. m_user_id m \<noteq> 1) (messages (db (ex_app (Some 1))))) = [6, 7]"
    by (simp add: ex_defs)
  show ?thesis
    using delete_user_cascade [OF h1 h2] h1 h2 f unfolding i by simp
qed

section \<open>Signing up with a taken username\<close>

lemma fold_max_ge: "a \<le> fold max xs (a::nat)"
  by (induction xs arbitrary: a) (auto intro: order_trans[OF max.cobounded2])

lemma fold_max_mem: "x \<in> set xs \<Longrightarrow> x \<le> fold max xs (a::nat)"
proof (induction xs arbitrary: a)
  case Nil
  then show ?case by simp
next
  case (Cons y ys)
  show ?case
  proof (cases "x = y")
    case True
    have "y \<le> max y a" by simp
    also have "\<dots> \<le> fold max ys (max y a)" by (rule fold_max_ge)
    finally show ?thesis using True by simp
  next
    case False
    with Cons show ?thesis by simp
  qed
qed

lemma fresh_id_fresh: "x \<in> set ids \<Longrightarrow> x \<noteq> fresh_id ids"
  using fold_max_mem[of x ids 0] by (auto simp: fresh_id_def)

text \<open>
  Claim C7. When the submitted username is already the username of a row of the user
  table, \<^verbatim>\<open>POST /signup\<close> persists nothing (the database after the request is the
  database before it, whatever the store does at the commit) and leaves the session
  entry as it was, so nobody is logged in as the attempted identity. Unless the store
  fails for another reason than the constraint, the handler does not fail either: it
  flashes ``Username already taken'' and renders the signup form again with the
  submitted form.
\<close>

theorem signup_duplicate_username:
  assumes dup: "f_username form \<in> set (map username (users (db st)))"
  shows "db (snd (signup e form fault st)) = db st
         \<and> session (snd (signup e form fault st)) = session st
         \<and> (fault = None \<or> fault = Some IntegrityError \<longrightarrow>
              signup e form fault st
                = (Render (UsersSignup form), flash ''Username already taken'' ''danger'' st))"
proof -
  let ?u = "User_signup e (f_username form) (f_password form) (f_email form)
              (if f_image_url form = [] then default_image_url e else f_image_url form) (db st)"
  from dup obtain x where x: "x \<in> set (users (db st))" "username x = f_username form" by auto
  have "u_id x \<noteq> u_id ?u"
    using x(1) fresh_id_fresh[of "u_id x" "map u_id (users (db st))"]
    by (simp add: User_signup_def)
  moreover have "username ?u = f_username form" by (simp add: User_signup_def)
  ultimately have taken: "identity_taken ?u (users (db st) @ [?u])"
    using x by (auto simp: identity_taken_def list_ex_iff)
  have c: "commit_users fault ?u ((db st)\<lparr>users := users (db st) @ [?u]\<rparr>)
           = (case fault of Some ex \<Rightarrow> Inl ex | None \<Rightarrow> Inl IntegrityError)"
    using taken by (simp add: commit_users_def split: option.splits)
  show ?thesis
    unfolding signup_def Let_def c
    by (cases fault) (simp_all add: flash_def)
qed

text \<open>
  An anonymous visitor signs up as ``alice'' with an email nobody has: the form comes
  back with the notice, the three users are all there is, and no session is set.
\<close>

theorem signup_duplicate_username_witness:
  "f_username ex_signup_form \<in> set (map username (users (db (ex_app None))))
   \<and> signup ex_env ex_signup_form None (ex_app None)
       = (Render (UsersSignup ex_signup_form),
          \<lparr>db = ex_db, session = None, flashed = [(''Username already taken'', ''danger'')]\<rparr>)
   \<and> map username (users (db (snd (signup ex_env ex_signup_form None (ex_app None)))))
       = [''alice'', ''bob'', ''carol'']"
proof -
  have h: "f_username ex_signup_form \<in> set (map username (users (db (ex_app None))))"
    by (simp add: ex_defs)
  have f: "flash ''Username already taken'' ''danger'' (ex_app None)
           = \<lparr>db = ex_db, session = None, flashed = [(''Username already taken'', ''danger'')]\<rparr>"
    by (simp add: flash_def ex_app_def)
  have u: "map username (users ex_db) = [''alice'', ''bob'', ''carol'']"
    by (simp add: ex_db_def mk_user_def)
  show ?thesis
    using signup_duplicate_username [OF h, of ex_env None] h f u by simp
qed

section \<open>Whose likes a profile shows\<close>

text \<open>
  Claim C10. For a logged-in viewer \<open>v\<close> and an existing user id in the path, the like
  count of \<^verbatim>\<open>GET /users/<id>\<close> is the number of like rows of \<open>v\<close>, and the list of
  \<^verbatim>\<open>GET /users/<id>/likes\<close> holds the messages that \<open>v\<close>'s like rows name, newest first.
  Neither depends on the path: with the same viewer, the same like rows of the viewer
  and the same message table, any other existing path id \<open>q\<close>, in any other state of the
  remaining tables, renders the same count and the same list.
\<close>

theorem profile_likes_from_viewer:
  assumes "add_user_to_g st = Some v" and "add_user_to_g st' = Some v'"
    and "u_id v' = u_id v"
    and "likes_of_user (db st') (u_id v) = likes_of_user (db st) (u_id v)"
    and "messages (db st') = messages (db st)"
    and "User_query_get (db st) p = Some up" and "User_query_get (db st') q = Some uq"
  shows "rendered_num_likes (fst (users_show p st))
           = Some (length (likes_of_user (db st) (u_id v)))
       \<and> rendered_num_likes (fst (users_show q st'))
           = rendered_num_likes (fst (users_show p st))
       \<and> rendered_liked_messages (fst (user_likes p st))
           = Some (order_by_timestamp_desc (filter
               (\<lambda>m. m_id m \<in> l_message_id ` set (likes_of_user (db st) (u_id v)))
               (messages (db st))))
       \<and> rendered_liked_messages (fst (user_likes q st'))
           = rendered_liked_messages (fst (user_likes p st))"
  using assms
  by (simp add: users_show_def user_likes_def rendered_num_likes_def
      rendered_liked_messages_def Let_def)

text \<open>
  Alice, who likes the messages 5 and 7, looks at the profile of bob, who likes nothing:
  the count is 2 and the list is alice's, and carol's profile shows her the same.
\<close>

theorem profile_likes_from_viewer_witness:
  "add_user_to_g (ex_app (Some 1)) = Some (mk_user 1 ''alice'')
   \<and> User_query_get (db (ex_app (Some 1))) 2 = Some (mk_user 2 ''bob'')
   \<and> User_query_get (db (ex_app (Some 1))) 3 = Some (mk_user 3 ''carol'')
   \<and> likes_of_user (db (ex_app (Some 1))) 2 = []
   \<and> rendered_num_likes (fst (users_show 2 (ex_app (Some 1)))) = Some 2
   \<and> rendered_num_likes (fst (users_show 3 (ex_app (Some 1)))) = Some 2
   \<and> rendered_liked_messages (fst (user_likes 2 (ex_app (Some 1))))
       = Some [mk_message 7 ''third'' 30 3, mk_message 5 ''hello world'' 10 1]
   \<and> rendered_liked_messages (fst (user_likes 3 (ex_app (Some 1))))
       = Some [mk_message 7 ''third'' 30 3, mk_message 5 ''hello world'' 10 1]"
proof -
  have g: "add_user_to_g (ex_app (Some 1)) = Some (mk_user 1 ''alice'')"
    by (simp add: ex_defs query_defs)
  have p: "User_query_get (db (ex_app (Some 1))) 2 = Some (mk_user 2 ''bob'')"
    by (simp add: ex_defs query_defs)
  have q: "User_query_get (db (ex_app (Some 1))) 3 = Some (mk_user 3 ''carol'')"
    by (simp add: ex_defs query_defs)
  have b: "likes_of_user (db (ex_app (Some 1))) 2 = []"
    by (simp add: ex_defs query_defs)
  have i: "u_id (mk_user 1 ''alice'') = 1" by (simp add: mk_user_def)
  have n: "length (likes_of_user (db (ex_app (Some 1))) 1) = 2"
    by (simp add: ex_defs query_defs)
  have l: "order_by_timestamp_desc (filter
             (\<lambda>m. m_id m \<in> l_message_id ` set (likes_of_user (db (ex_app (Some 1))) 1))
             (messages (db (ex_app (Some 1)))))
           = [mk_message 7 ''third'' 30 3, mk_message 5 ''hello world'' 10 1]"
    by (simp add: ex_defs query_defs)
  show ?thesis
    using profile_likes_from_viewer [OF g g refl refl refl p q] g p q b n l
    unfolding i by simp
qed

section \<open>The like toggle\<close>

lemma distinct_map_remove1: "distinct (map f xs) \<Longrightarrow> distinct (map f (remove1 x xs))"
proof (induction xs)
  case Nil
  then show ?case by simp
next
  case (Cons y ys)
  have "set (remove1 x ys) \<subseteq> set ys" by (rule set_remove1_subset)
  with Cons show ?case by auto
qed

text \<open>
  The handler inserts a like row only for a message that no row names yet, so a table
  with at most one like per message stays so, and no user ever has two like rows for
  one message.
\<close>

lemma add_like_keeps_one_like_per_message:
  assumes "distinct (map l_message_id (likes (db st)))"
  shows "distinct (map l_message_id (likes (db (snd (add_like m fault st)))))"
  using assms
  by (auto simp: add_like_def commit_def delete_like_def Let_def distinct_map_remove1
      split: option.splits)

lemma likes_of_user_no_duplicates:
  "distinct (map l_message_id (likes d)) \<Longrightarrow> distinct (map l_message_id (likes_of_user d u))"
  by (simp add: likes_of_user_def distinct_map_filter)

text \<open>
  Claim C1 says that the toggle is scoped to the pair of user and message. The handler
  looks for the message id among the like rows of all users. Bob (2) has not liked
  message 5, alice (1) has. Bob's first \<^verbatim>\<open>POST /users/add_like/5\<close> deletes alice's
  like row and inserts none for bob; his second one inserts his row. After two calls in
  a row bob likes the message, and alice, who did nothing, does not any more.
\<close>

theorem add_like_toggle_not_scoped:
  "likes (db (ex_app (Some 2))) = [mk_like 1 5, mk_like 1 7]
   \<and> add_like 5 None (ex_app (Some 2))
       = (Redirect (UserLikes 2), (ex_app (Some 2))\<lparr>db := ex_db\<lparr>likes := [mk_like 1 7]\<rparr>\<rparr>)
   \<and> add_like 5 None ((ex_app (Some 2))\<lparr>db := ex_db\<lparr>likes := [mk_like 1 7]\<rparr>\<rparr>)
       = (Redirect Root, (ex_app (Some 2))\<lparr>db := ex_db\<lparr>likes := [mk_like 1 7, mk_like 2 5]\<rparr>\<rparr>)"
  by (simp add: add_like_def delete_like_def ex_defs query_defs)

section \<open>Deleting a message\<close>

text \<open>
  Claim C2 says that only the owner may delete a message. The handler asks only whether
  somebody is logged in: bob (2) posts to \<^verbatim>\<open>/messages/5/delete\<close>, message 5 is
  alice's, and it is deleted; bob is sent to his own profile.
\<close>

theorem messages_destroy_no_owner_check:
  "Message_query_get (db (ex_app (Some 2))) 5 = Some (mk_message 5 ''hello world'' 10 1)
   \<and> u_id (mk_user 2 ''bob'') = 2
   \<and> add_user_to_g (ex_app (Some 2)) = Some (mk_user 2 ''bob'')
   \<and> fst (messages_destroy 5 None (ex_app (Some 2))) = Redirect (UserPage 2)
   \<and> Message_query_get (db (snd (messages_destroy 5 None (ex_app (Some 2))))) 5 = None
   \<and> messages (db (snd (messages_destroy 5 None (ex_app (Some 2)))))
       = [mk_message 6 ''second'' 20 2, mk_message 7 ''third'' 30 3]"
  by (simp add: messages_destroy_def delete_message_def ex_defs query_defs)

section \<open>Requests without a session\<close>

lemma unauthorized_keeps_stores:
  "db (snd (unauthorized st)) = db st" "session (snd (unauthorized st)) = session st"
  "fst (unauthorized st) = Redirect Root"
  by (simp_all add: unauthorized_def flash_def)

text \<open>The handlers that have the gate stop at it when nobody is logged in.\<close>

lemma gated_handlers_unauthorized:
  assumes "add_user_to_g st = None"
  shows "add_follow i f st = unauthorized st" "stop_following i f st = unauthorized st"
    "delete_user f1 f2 st = unauthorized st" "messages_add t n f st = unauthorized st"
    "messages_destroy i f st = unauthorized st" "user_likes i st = unauthorized st"
  using assms
  by (simp_all add: add_follow_def stop_following_def delete_user_def messages_add_def
      messages_destroy_def user_likes_def)

text \<open>
  Claim C3 says that every mutating operation without a session ends in the
  unauthorized outcome with all stores unchanged. The like toggle and the profile edit
  have no gate. Without a session, \<^verbatim>\<open>POST /users/add_like/5\<close> deletes alice's like of
  message 5, commits, and only then fails on \<^verbatim>\<open>g.user.id\<close>; \<^verbatim>\<open>POST /users/profile\<close>
  changes nothing but fails with KeyError on \<^verbatim>\<open>session[CURR_USER_KEY]\<close> instead of
  flashing a notice and redirecting.
\<close>

theorem add_like_without_session:
  "add_user_to_g (ex_app None) = None
   \<and> likes (db (ex_app None)) = [mk_like 1 5, mk_like 1 7]
   \<and> add_like 5 None (ex_app None)
       = (Raised AttributeError, (ex_app None)\<lparr>db := ex_db\<lparr>likes := [mk_like 1 7]\<rparr>\<rparr>)
   \<and> update_profile e form fault (ex_app None) = (Raised KeyError, ex_app None)"
  by (simp add: add_like_def update_profile_def delete_like_def ex_defs query_defs)

section \<open>Two commits in the account deletion\<close>

text \<open>
  Claim C6 says that a handler's writes are committed together or not at all. The
  account deletion commits the deletion of the messages before it deletes the user.
  When the store fails at the second commit, the request of alice (1) ends with that
  error, her message is gone for good, and her user row is still there.
\<close>

theorem delete_user_not_atomic:
  "fst (delete_user None (Some OperationalError) (ex_app (Some 1))) = Raised OperationalError
   \<and> messages (db (snd (delete_user None (Some OperationalError) (ex_app (Some 1)))))
       = [mk_message 6 ''second'' 20 2, mk_message 7 ''third'' 30 3]
   \<and> messages (db (ex_app (Some 1)))
       = [mk_message 5 ''hello world'' 10 1, mk_message 6 ''second'' 20 2,
          mk_message 7 ''third'' 30 3]
   \<and> User_query_get (db (snd (delete_user None (Some OperationalError) (ex_app (Some 1))))) 1
       = Some (mk_user 1 ''alice'')"
  by (simp add: delete_user_def delete_message_def delete_user_row_def ex_defs query_defs)

section \<open>The profile page for an anonymous visitor\<close>

text \<open>
  Claim C8 says that \<^verbatim>\<open>GET /users/<id>\<close> serves anonymous visitors. The handler has no
  gate, and reads \<^verbatim>\<open>g.user.id\<close> for the like count: without a session the request for
  the existing user 1 ends in an AttributeError, not in the profile view.
\<close>

theorem users_show_anonymous_fails:
  "User_query_get (db (ex_app None)) 1 = Some (mk_user 1 ''alice'')
   \<and> add_user_to_g (ex_app None) = None
   \<and> users_show 1 (ex_app None) = (Raised AttributeError, ex_app None)"
  by (simp add: users_show_def ex_defs query_defs)

section \<open>Logging out\<close>

lemma do_logout_cleared: "session (do_logout st) = None"
  by (simp add: do_logout_def)

lemma do_logout_idempotent: "do_logout (do_logout st) = do_logout st"
  by (simp add: do_logout_def)

text \<open>
  Claim C9 says that logging out without a session succeeds. The helper \<^verbatim>\<open>do_logout\<close>
  is idempotent, but the route reads \<^verbatim>\<open>session[CURR_USER_KEY]\<close> before it calls the
  helper: in any state without a session entry, \<^verbatim>\<open>GET /logout\<close> fails with KeyError.
\<close>

theorem logout_without_session_fails:
  "logout (st\<lparr>session := None\<rparr>) = (Raised KeyError, st\<lparr>session := None\<rparr>)"
  by (simp add: logout_def)

end
